theory Spec2Isabelle
  imports Main
begin

section \<open>Python values and string operations used by the handlers\<close>

text \<open>
  A Python \<open>str\<close> is modelled as a \<open>string\<close> whose characters are the code points
  below 256. The values that travel through the retrieval chain are modelled by
  \<open>pyval\<close>; a \<open>dict\<close> is an association list (first binding of a key wins).
\<close>

datatype pyval =
    PNone
  | PBool bool
  | PInt int
  | PStr string
  | PList "pyval list"
  | PDict "(pyval \<times> pyval) list"

text \<open>
  Exceptions. \<open>External m\<close> is any exception raised by a library call outside this
  repository, with \<open>str(e) = m\<close>. \<open>HTTPException code detail\<close> is FastAPI's.
\<close>

datatype exn =
    ValueError string
  | KeyError string
  | IndexError string
  | External string
  | HTTPException nat string

text \<open>\<open>str(e)\<close> for the exceptions caught by the handlers.\<close>

fun str_exn :: "exn \<Rightarrow> string" where
  "str_exn (ValueError m) = m"
| "str_exn (KeyError k) = [CHR 0x27] @ k @ [CHR 0x27]"
| "str_exn (IndexError m) = m"
| "str_exn (External m) = m"
| "str_exn (HTTPException c d) = d"

text \<open>
  The builtin \<open>str(x)\<close>: the identity on a \<open>str\<close>; on every other value the
  rendering is the interpreter's, taken as the parameter \<open>render\<close>.
\<close>

definition py_str :: "(pyval \<Rightarrow> string) \<Rightarrow> pyval \<Rightarrow> string" where
  "py_str render v = (case v of PStr s \<Rightarrow> s | _ \<Rightarrow> render v)"

text \<open>\<open>s.startswith(p)\<close> and \<open>s.endswith(p)\<close>.\<close>

definition startswith :: "string \<Rightarrow> string \<Rightarrow> bool" where
  "startswith s p = (take (length p) s = p)"

definition endswith :: "string \<Rightarrow> string \<Rightarrow> bool" where
  "endswith s p = (length p \<le> length s \<and> drop (length s - length p) s = p)"

text \<open>
  \<open>s.lower()\<close> on code points below 256: \<open>A\<close>..\<open>Z\<close> and the Latin-1 capitals
  (\<open>0xC0\<close>..\<open>0xDE\<close> except the multiplication sign \<open>0xD7\<close>) move up by 32.
\<close>

definition lower_char :: "char \<Rightarrow> char" where
  "lower_char c =
     (let n = (of_char c :: nat)
      in if (65 \<le> n \<and> n \<le> 90) \<or> (192 \<le> n \<and> n \<le> 222 \<and> n \<noteq> 215)
         then char_of (n + 32) else c)"

definition lower :: "string \<Rightarrow> string" where
  "lower s = map lower_char s"

text \<open>
  \<open>s.strip()\<close> removes leading and trailing whitespace; below 256 the whitespace
  code points are \<open>0x09\<close>..\<open>0x0D\<close>, \<open>0x1C\<close>..\<open>0x20\<close>, \<open>0x85\<close> and \<open>0xA0\<close>.
\<close>

definition is_space :: "char \<Rightarrow> bool" where
  "is_space c =
     (let n = (of_char c :: nat)
      in (9 \<le> n \<and> n \<le> 13) \<or> (28 \<le> n \<and> n \<le> 32) \<or> n = 133 \<or> n = 160)"

definition strip :: "string \<Rightarrow> string" where
  "strip s = rev (dropWhile is_space (rev (dropWhile is_space s)))"

text \<open>\<open>sub in s\<close> for strings.\<close>

fun contains :: "string \<Rightarrow> string \<Rightarrow> bool" where
  "contains [] sub = (sub = [])"
| "contains (c # cs) sub = (startswith (c # cs) sub \<or> contains cs sub)"

text \<open>
  \<open>s.split(sep)\<close> for a non-empty separator: a left-to-right scan for
  non-overlapping occurrences. \<open>split_from sep acc s\<close> carries the reversed current
  piece. Python raises \<open>ValueError\<close> on an empty separator.
\<close>

function split_from :: "string \<Rightarrow> string \<Rightarrow> string \<Rightarrow> string list" where
  "split_from sep acc [] = [rev acc]"
| "split_from sep acc (c # cs) =
     (if sep \<noteq> [] \<and> startswith (c # cs) sep
      then rev acc # split_from sep [] (drop (length sep) (c # cs))
      else split_from sep (c # acc) cs)"
  by pat_completeness auto
termination
  by (relation "measure (\<lambda>(sep, acc, s). length s)") auto

definition split :: "string \<Rightarrow> string \<Rightarrow> exn + string list" where
  "split s sep =
     (if sep = [] then Inl (ValueError ''empty separator'')
      else Inr (split_from sep [] s))"

text \<open>
  \<open>s.count(sub)\<close>: the number of non-overlapping occurrences; for the empty string
  Python answers \<open>len(s) + 1\<close>.
\<close>

function count_from :: "string \<Rightarrow> string \<Rightarrow> nat" where
  "count_from sub [] = 0"
| "count_from sub (c # cs) =
     (if sub \<noteq> [] \<and> startswith (c # cs) sub
      then Suc (count_from sub (drop (length sub) (c # cs)))
      else count_from sub cs)"
  by pat_completeness auto
termination
  by (relation "measure (\<lambda>(sub, s). length s)") auto

definition count :: "string \<Rightarrow> string \<Rightarrow> nat" where
  "count s sub = (if sub = [] then length s + 1 else count_from sub s)"

text \<open>\<open>sep.join(xs)\<close>.\<close>

fun join :: "string \<Rightarrow> string list \<Rightarrow> string" where
  "join sep [] = []"
| "join sep [x] = x"
| "join sep (x # y # ys) = x @ sep @ join sep (y # ys)"

section \<open>The input-normalization shim\<close>

text \<open>
  \<open>format_inputs\<close>, defined inside \<open>create_custom_retrieval_chain\<close> in both
  front-ends (\<open>backend/app/main.py\<close> and \<open>app.py\<close>) with the same body. A Python
  dict with string keys is a map; the result is the one-entry dict
  \<open>{"question": question}\<close>.
\<close>

definition format_inputs :: "(string \<rightharpoonup> 'v) \<Rightarrow> exn + (string \<rightharpoonup> 'v)" where
  "format_inputs inputs =
     (case inputs ''question'' of
        Some q \<Rightarrow> Inr [''question'' \<mapsto> q]
      | None \<Rightarrow>
         (case inputs ''input'' of
            Some q \<Rightarrow> Inr [''question'' \<mapsto> q]
          | None \<Rightarrow> Inl (ValueError ''Input must contain either 'question' or 'input' key'')))"

section \<open>Answer extraction and the reasoning split\<close>

text \<open>
  The key probe of \<open>ask_question\<close> (and, with the same chain of tests, of the chat
  front-end): \<open>answer\<close>, \<open>result\<close>, \<open>output\<close>, \<open>response\<close>, else \<open>str(response)\<close>.
  The value found is returned as it is, whatever its type.
\<close>

definition extract_answer :: "(pyval \<Rightarrow> string) \<Rightarrow> pyval \<Rightarrow> pyval" where
  "extract_answer render response =
     (case response of
        PDict kvs \<Rightarrow>
          (case map_of kvs (PStr ''answer'') of
             Some v \<Rightarrow> v
           | None \<Rightarrow>
          (case map_of kvs (PStr ''result'') of
             Some v \<Rightarrow> v
           | None \<Rightarrow>
          (case map_of kvs (PStr ''output'') of
             Some v \<Rightarrow> v
           | None \<Rightarrow>
          (case map_of kvs (PStr ''response'') of
             Some v \<Rightarrow> v
           | None \<Rightarrow> PStr (py_str render response)))))
      | _ \<Rightarrow> PStr (py_str render response))"

text \<open>
  The body returned by \<open>/question\<close>: the key \<open>answer\<close>, and the key \<open>thinking\<close>
  when present.
\<close>

record question_response =
  answer :: pyval
  thinking :: "string option"

definition final_answer_delimiter :: string where
  "final_answer_delimiter = [CHR 0x0A, CHR 0x0A] @ ''Final Answer:''"

definition blank_line :: string where
  "blank_line = [CHR 0x0A, CHR 0x0A]"

text \<open>
  The \<open>include_reasoning\<close> branch of \<open>ask_question\<close>. \<open>parts[0]\<close> and \<open>parts[1]\<close>
  raise \<open>IndexError\<close> on a shorter list; \<open>paragraphs[:-1]\<close> is \<open>butlast\<close> and
  \<open>paragraphs[-1]\<close> raises on an empty list.
\<close>

definition split_reasoning :: "pyval \<Rightarrow> exn + question_response" where
  "split_reasoning ans =
     (case ans of
        PStr s \<Rightarrow>
          if contains s final_answer_delimiter then
            (case split s final_answer_delimiter of
               Inl e \<Rightarrow> Inl e
             | Inr parts \<Rightarrow>
                 (case parts of
                    p0 # p1 # _ \<Rightarrow>
                      Inr \<lparr>answer = PStr (''Final Answer:'' @ strip p1),
                           thinking = Some (strip p0)\<rparr>
                  | _ \<Rightarrow> Inl (IndexError ''list index out of range'')))
          else if count s blank_line > 0 then
            (case split s blank_line of
               Inl e \<Rightarrow> Inl e
             | Inr paragraphs \<Rightarrow>
                 (if paragraphs = [] then Inl (IndexError ''list index out of range'')
                  else Inr \<lparr>answer = PStr (last paragraphs),
                            thinking = Some (join blank_line (butlast paragraphs))\<rparr>))
          else Inr \<lparr>answer = ans, thinking = None\<rparr>
      | _ \<Rightarrow> Inr \<lparr>answer = ans, thinking = None\<rparr>)"

section \<open>Sessions and the session table\<close>

text \<open>
  A retrieval chain is opaque: \<open>chain.invoke(inputs)\<close> either raises (\<open>Inl m\<close>, with
  \<open>str(e) = m\<close>) or returns a value. A session is the dict created by
  \<open>get_or_create_session_store\<close>; the key \<open>retrieval_chain_formatter\<close> is absent
  (\<open>None\<close>) until a build stores it.
\<close>

type_synonym chain = "(string \<rightharpoonup> pyval) \<Rightarrow> string + pyval"

type_synonym formatter = "(string \<rightharpoonup> pyval) \<Rightarrow> exn + (string \<rightharpoonup> pyval)"

record session =
  status :: string
  retrieval_chain :: "chain option"
  processor :: "pyval option"
  filename :: "string option"
  error :: "string option"
  retrieval_chain_formatter :: "formatter option"

type_synonym document_store = "string \<rightharpoonup> session"

definition new_session :: session where
  "new_session =
     \<lparr>status = ''none'', retrieval_chain = None, processor = None,
      filename = None, error = None, retrieval_chain_formatter = None\<rparr>"

definition get_or_create_session_store ::
    "string \<Rightarrow> document_store \<Rightarrow> session \<times> document_store" where
  "get_or_create_session_store sid store =
     (case store sid of
        None \<Rightarrow> (new_session, store(sid \<mapsto> new_session))
      | Some s \<Rightarrow> (s, store))"

section \<open>The background build\<close>

text \<open>
  What the outside world answers during one run of \<open>process_document\<close>:
  the status code of \<open>GET /api/tags\<close> (\<open>None\<close> when the request raises), and for
  each library step whether it raises (\<open>Some m\<close>, with \<open>str(e) = m\<close>). The last step
  yields the assembled chain.
\<close>

record build_env =
  ollama_tags :: "nat option"
  load_outcome :: "string option"
  split_outcome :: "string option"
  index_outcome :: "string option"
  chain_outcome :: "string + chain"

datatype build_step = CheckOllama | LoadPdf | SplitDocuments | BuildIndex | AssembleChain

definition is_ollama_running :: "build_env \<Rightarrow> bool" where
  "is_ollama_running env = (case ollama_tags env of None \<Rightarrow> False | Some code \<Rightarrow> code = 200)"

definition ollama_not_running_message :: string where
  "ollama_not_running_message =
     ''Ollama is not running. Please start Ollama before processing documents.''"

text \<open>The \<open>except\<close> handler of \<open>process_document\<close>.\<close>

definition build_failed :: "session \<Rightarrow> string \<Rightarrow> session" where
  "build_failed s m = s\<lparr>status := ''error'', error := Some m\<rparr>"

text \<open>
  The body of the \<open>try\<close> block: the session after it and the library steps it
  performed, in order.
\<close>

definition build_steps :: "build_env \<Rightarrow> session \<Rightarrow> session \<times> build_step list" where
  "build_steps env s =
     (if \<not> is_ollama_running env then
        (s\<lparr>status := ''error'', error := Some ollama_not_running_message\<rparr>, [CheckOllama])
      else case load_outcome env of
        Some m \<Rightarrow> (build_failed s m, [CheckOllama, LoadPdf])
      | None \<Rightarrow>
      (case split_outcome env of
        Some m \<Rightarrow> (build_failed s m, [CheckOllama, LoadPdf, SplitDocuments])
      | None \<Rightarrow>
      (case index_outcome env of
        Some m \<Rightarrow> (build_failed s m, [CheckOllama, LoadPdf, SplitDocuments, BuildIndex])
      | None \<Rightarrow>
      (case chain_outcome env of
        Inl m \<Rightarrow>
          (build_failed s m, [CheckOllama, LoadPdf, SplitDocuments, BuildIndex, AssembleChain])
      | Inr c \<Rightarrow>
          (s\<lparr>retrieval_chain_formatter := Some format_inputs,
             retrieval_chain := Some c,
             status := ''completed''\<rparr>,
           [CheckOllama, LoadPdf, SplitDocuments, BuildIndex, AssembleChain])))))"

definition process_document ::
    "string \<Rightarrow> string \<Rightarrow> string \<Rightarrow> build_env \<Rightarrow> document_store
       \<Rightarrow> document_store \<times> build_step list" where
  "process_document sid file_path fname env store =
     (let (s, store1) = get_or_create_session_store sid store;
          s1 = s\<lparr>status := ''processing'', filename := Some fname\<rparr>;
          (s2, steps) = build_steps env s1
      in (store1(sid \<mapsto> s2), steps))"

section \<open>The HTTP handlers\<close>

text \<open>
  The server state: the global \<open>document_store\<close> and the background tasks that
  have been scheduled and have not run yet, each with the arguments
  \<open>(session_id, file_path, filename)\<close> of its \<open>process_document\<close> call.
\<close>

type_synonym task = "string \<times> string \<times> string"

record server =
  sessions :: document_store
  background_tasks :: "task list"

datatype document_process_response = DocumentProcessResponse string string string

text \<open>
  What the file system answers during an upload: creating the temporary file may
  raise (outside the \<open>try\<close>), reading and writing may raise (inside it), or the
  content is stored under the temporary file's name.
\<close>

datatype upload_io = TempfileFails string | WriteFails string | Stored string

text \<open>\<open>not session_id\<close>: the query parameter is missing or empty.\<close>

definition falsy :: "string option \<Rightarrow> bool" where
  "falsy sid = (case sid of None \<Rightarrow> True | Some s \<Rightarrow> s = [])"

definition upload_document ::
    "string option \<Rightarrow> string \<Rightarrow> upload_io \<Rightarrow> server
       \<Rightarrow> (exn + document_process_response) \<times> server" where
  "upload_document session_id fname io srv =
     (if falsy session_id then
        (Inl (HTTPException 400 ''Session ID is required''), srv)
      else if \<not> endswith (lower fname) ''.pdf'' then
        (Inl (HTTPException 400 ''Only PDF files are supported''), srv)
      else case io of
        TempfileFails m \<Rightarrow> (Inl (External m), srv)
      | WriteFails m \<Rightarrow> (Inl (HTTPException 500 m), srv)
      | Stored path \<Rightarrow>
          (let sid = the session_id;
               (s, store1) = get_or_create_session_store sid (sessions srv);
               store2 = store1(sid \<mapsto> s\<lparr>status := ''uploaded''\<rparr>)
           in (Inr (DocumentProcessResponse sid ''processing''
                      (''Document '' @ [CHR 0x27] @ fname @ [CHR 0x27]
                         @ '' uploaded and is being processed'')),
               srv\<lparr>sessions := store2,
                   background_tasks := background_tasks srv @ [(sid, path, fname)]\<rparr>)))"

datatype status_response = StatusResponse string string "string option" "string option"

definition document_status :: "string \<Rightarrow> server \<Rightarrow> status_response \<times> server" where
  "document_status sid srv =
     (let (s, store1) = get_or_create_session_store sid (sessions srv)
      in (StatusResponse sid (status s) (filename s) (error s),
          srv\<lparr>sessions := store1\<rparr>))"

text \<open>
  The request body of \<open>/question\<close>. \<open>fmt_opt\<close> is how an f-string renders an
  optional string (\<open>None\<close> prints as \<open>None\<close>).
\<close>

record question_request =
  question :: string
  session_id :: string
  include_reasoning :: bool

definition fmt_opt :: "string option \<Rightarrow> string" where
  "fmt_opt v = (case v of None \<Rightarrow> ''None'' | Some s \<Rightarrow> s)"

text \<open>
  The \<open>except Exception\<close> clause at the end of \<open>ask_question\<close>.
\<close>

definition generation_failed :: "exn \<Rightarrow> exn" where
  "generation_failed e = HTTPException 500 (''Error processing question: '' @ str_exn e)"

text \<open>
  \<open>ask_question\<close> returns its response or the exception it raises, the server
  state afterwards, and the list of inputs with which it invoked the session's
  retrieval chain.
\<close>

definition ask_question ::
    "(pyval \<Rightarrow> string) \<Rightarrow> question_request \<Rightarrow> server
       \<Rightarrow> (exn + question_response) \<times> server \<times> (string \<rightharpoonup> pyval) list" where
  "ask_question render request srv =
     (let (s, store1) = get_or_create_session_store (session_id request) (sessions srv);
          srv1 = srv\<lparr>sessions := store1\<rparr>
      in if status s \<noteq> ''completed'' then
           (if status s = ''error'' then
              (Inl (HTTPException 400 (''Error processing document: '' @ fmt_opt (error s))),
               srv1, [])
            else
              (Inl (HTTPException 400 ''Document processing not completed''), srv1, []))
         else case retrieval_chain s of
           None \<Rightarrow>
             (Inl (HTTPException 400 ''No document has been processed for this session''),
              srv1, [])
         | Some c \<Rightarrow>
         (case retrieval_chain_formatter s of
           None \<Rightarrow> (Inl (generation_failed (KeyError ''retrieval_chain_formatter'')), srv1, [])
         | Some f \<Rightarrow>
         (case f [''input'' \<mapsto> PStr (question request)] of
           Inl e \<Rightarrow> (Inl (generation_failed e), srv1, [])
         | Inr formatted_input \<Rightarrow>
         (case c formatted_input of
           Inl m \<Rightarrow> (Inl (generation_failed (External m)), srv1, [formatted_input])
         | Inr response \<Rightarrow>
             (let ans = extract_answer render response
              in if include_reasoning request then
                   (case split_reasoning ans of
                      Inl e \<Rightarrow> (Inl (generation_failed e), srv1, [formatted_input])
                    | Inr r \<Rightarrow> (Inr r, srv1, [formatted_input]))
                 else (Inr \<lparr>answer = ans, thinking = None\<rparr>, srv1, [formatted_input]))))))"

section \<open>Runs of the server\<close>

text \<open>
  One event is one request handled, or one scheduled background task run to its
  end (\<open>process_document\<close> has no \<open>await\<close>, so nothing interleaves with it).
  \<open>RunTask i env\<close> runs the \<open>i\<close>-th pending task, if there is one.
\<close>

datatype event =
    Upload "string option" string upload_io
  | RunTask nat build_env
  | Status string
  | Question question_request

definition run_task :: "nat \<Rightarrow> build_env \<Rightarrow> server \<Rightarrow> server" where
  "run_task i env srv =
     (if i < length (background_tasks srv) then
        (case background_tasks srv ! i of
           (sid, file_path, fname) \<Rightarrow>
             srv\<lparr>sessions := fst (process_document sid file_path fname env (sessions srv)),
                 background_tasks :=
                   take i (background_tasks srv) @ drop (Suc i) (background_tasks srv)\<rparr>)
      else srv)"

fun step :: "(pyval \<Rightarrow> string) \<Rightarrow> server \<Rightarrow> event \<Rightarrow> server" where
  "step render srv (Upload sid fname io) = snd (upload_document sid fname io srv)"
| "step render srv (RunTask i env) = run_task i env srv"
| "step render srv (Status sid) = snd (document_status sid srv)"
| "step render srv (Question request) = fst (snd (ask_question render request srv))"

definition initial_server :: server where
  "initial_server = \<lparr>sessions = Map.empty, background_tasks = []\<rparr>"

definition run :: "(pyval \<Rightarrow> string) \<Rightarrow> event list \<Rightarrow> server" where
  "run render evs = foldl (step render) initial_server evs"

section \<open>Concrete inputs used in the examples below\<close>

text \<open>\<open>isinstance(v, dict)\<close>.\<close>

fun is_dict :: "pyval \<Rightarrow> bool" where
  "is_dict (PDict kvs) = True"
| "is_dict v = False"

definition example_render :: "pyval \<Rightarrow> string" where
  "example_render v = ''<rendered>''"

definition answering_chain :: chain where
  "answering_chain inputs = Inr (PStr ''hello'')"

definition failing_chain :: chain where
  "failing_chain inputs = Inl ''connection refused''"

definition env_success :: "chain \<Rightarrow> build_env" where
  "env_success c =
     \<lparr>ollama_tags = Some 200, load_outcome = None, split_outcome = None,
      index_outcome = None, chain_outcome = Inr c\<rparr>"

definition env_load_fails :: build_env where
  "env_load_fails =
     \<lparr>ollama_tags = Some 200, load_outcome = Some ''bad pdf'', split_outcome = None,
      index_outcome = None, chain_outcome = Inr answering_chain\<rparr>"

definition env_ollama_down :: build_env where
  "env_ollama_down =
     \<lparr>ollama_tags = None, load_outcome = None, split_outcome = None,
      index_outcome = None, chain_outcome = Inr answering_chain\<rparr>"

text \<open>An upload followed by its successful build, and the session it leaves.\<close>

definition built_events :: "chain \<Rightarrow> event list" where
  "built_events c =
     [Upload (Some ''s1'') ''a.pdf'' (Stored ''/tmp/t1''), RunTask 0 (env_success c)]"

definition built_session :: "chain \<Rightarrow> session" where
  "built_session c =
     \<lparr>status = ''completed'', retrieval_chain = Some c, processor = None,
      filename = Some ''a.pdf'', error = None,
      retrieval_chain_formatter = Some format_inputs\<rparr>"

text \<open>The same, followed by a second upload to the same session.\<close>

definition reupload_events :: "event list" where
  "reupload_events =
     built_events answering_chain @ [Upload (Some ''s1'') ''b.pdf'' (Stored ''/tmp/t2'')]"

text \<open>An upload whose build fails while loading, followed by a second upload.\<close>

definition failed_then_reupload_events :: "event list" where
  "failed_then_reupload_events =
     [Upload (Some ''s1'') ''a.pdf'' (Stored ''/tmp/t1''), RunTask 0 env_load_fails,
      Upload (Some ''s1'') ''b.pdf'' (Stored ''/tmp/t2'')]"

text \<open>An upload whose build fails while loading.\<close>

definition failed_events :: "event list" where
  "failed_events =
     [Upload (Some ''s1'') ''a.pdf'' (Stored ''/tmp/t1''), RunTask 0 env_load_fails]"

definition example_request :: question_request where
  "example_request = \<lparr>question = ''What?'', session_id = ''s1'', include_reasoning = False\<rparr>"

definition other_request :: question_request where
  "other_request = \<lparr>question = ''What?'', session_id = ''s2'', include_reasoning = True\<rparr>"

text \<open>Whether an event is an upload request for the session \<open>sid\<close>.\<close>

fun uploads_to :: "string \<Rightarrow> event \<Rightarrow> bool" where
  "uploads_to sid (Upload target fname io) = (target = Some sid)"
| "uploads_to sid e = False"

text \<open>
  The invariant of the session table: a session whose status is \<open>completed\<close> holds a
  chain and the formatter stored with it.
\<close>

definition session_ok :: "session \<Rightarrow> bool" where
  "session_ok s =
     (status s = ''completed'' \<longrightarrow>
        retrieval_chain s \<noteq> None \<and> retrieval_chain_formatter s = Some format_inputs)"

definition store_ok :: "document_store \<Rightarrow> bool" where
  "store_ok store = (\<forall>sid s. store sid = Some s \<longrightarrow> session_ok s)"

text \<open>The session left by the failed build of \<open>failed_events\<close>.\<close>

definition failed_session :: session where
  "failed_session =
     \<lparr>status = ''error'', retrieval_chain = None, processor = None,
      filename = Some ''a.pdf'', error = Some ''bad pdf'',
      retrieval_chain_formatter = None\<rparr>"

text \<open>
  A session identifier that no accepted upload and no build has touched: it is
  absent from the table, or bound to a fresh session, and no pending task names it.
\<close>

definition untouched :: "string \<Rightarrow> server \<Rightarrow> bool" where
  "untouched sid srv =
     ((sessions srv sid = None \<or> sessions srv sid = Some new_session)
      \<and> sid \<notin> fst ` set (background_tasks srv))"

section \<open>Evaluation and invariants\<close>

lemma endswith_a_pdf: "endswith (lower ''a.pdf'') ''.pdf''"
  by code_simp

lemma endswith_b_pdf: "endswith (lower ''b.pdf'') ''.pdf''"
  by code_simp

lemmas eval_defs = run_def initial_server_def upload_document_def falsy_def
  get_or_create_session_store_def new_session_def run_task_def process_document_def
  build_steps_def is_ollama_running_def build_failed_def env_success_def env_load_fails_def
  env_ollama_down_def document_status_def built_events_def reupload_events_def
  failed_then_reupload_events_def failed_events_def endswith_a_pdf endswith_b_pdf Let_def

lemma session_ok_new: "session_ok new_session"
  by (simp add: session_ok_def new_session_def)

lemma get_or_create_lookup:
  "snd (get_or_create_session_store sid store) sid
     = Some (fst (get_or_create_session_store sid store))"
  by (simp add: get_or_create_session_store_def split: option.splits)

lemma get_or_create_other:
  "sid' \<noteq> sid \<Longrightarrow> snd (get_or_create_session_store sid store) sid' = store sid'"
  by (simp add: get_or_create_session_store_def split: option.splits)

lemma get_or_create_ok:
  assumes "store_ok store"
  shows "store_ok (snd (get_or_create_session_store sid store))"
    and "session_ok (fst (get_or_create_session_store sid store))"
  using assms
  by (auto simp: get_or_create_session_store_def store_ok_def session_ok_new
      split: option.splits)

lemma store_ok_update: "store_ok store \<Longrightarrow> session_ok s \<Longrightarrow> store_ok (store(sid \<mapsto> s))"
  by (simp add: store_ok_def)

lemma build_steps_ok: "session_ok (fst (build_steps env s))"
  by (simp add: build_steps_def build_failed_def session_ok_def
      split: option.splits sum.splits)

lemma process_document_ok:
  "store_ok store \<Longrightarrow> store_ok (fst (process_document sid fp fname env store))"
  by (simp add: process_document_def split_beta Let_def store_ok_update get_or_create_ok
      build_steps_ok)

lemma sessions_ask_question:
  "sessions (fst (snd (ask_question render request srv)))
     = snd (get_or_create_session_store (session_id request) (sessions srv))"
  by (simp add: ask_question_def split_beta Let_def split: option.splits sum.splits)

lemma tasks_ask_question:
  "background_tasks (fst (snd (ask_question render request srv))) = background_tasks srv"
  by (simp add: ask_question_def split_beta Let_def split: option.splits sum.splits)

lemma step_ok: "store_ok (sessions srv) \<Longrightarrow> store_ok (sessions (step render srv e))"
proof (cases e)
  case (Upload sid fname io)
  assume ok: "store_ok (sessions srv)"
  have "session_ok (s\<lparr>status := ''uploaded''\<rparr>)" for s
    by (simp add: session_ok_def)
  with ok show ?thesis
    by (simp add: Upload upload_document_def split_beta Let_def store_ok_update
        get_or_create_ok split: upload_io.splits)
next
  case (RunTask i env)
  assume "store_ok (sessions srv)"
  then show ?thesis
    by (simp add: RunTask run_task_def process_document_ok split: prod.splits)
next
  case (Status sid)
  assume "store_ok (sessions srv)"
  then show ?thesis
    by (simp add: Status document_status_def split_beta get_or_create_ok)
next
  case (Question request)
  assume "store_ok (sessions srv)"
  then show ?thesis
    by (simp add: Question sessions_ask_question get_or_create_ok)
qed

lemma foldl_step_ok:
  "store_ok (sessions srv) \<Longrightarrow> store_ok (sessions (foldl (step render) srv evs))"
  by (induction evs arbitrary: srv) (simp_all add: step_ok)

lemma initial_ok: "store_ok (sessions initial_server)"
  by (simp add: initial_server_def store_ok_def)

lemma run_ok: "store_ok (sessions (run render evs))"
  unfolding run_def by (rule foldl_step_ok [OF initial_ok])

lemma run_built: "sessions (run render (built_events c)) ''s1'' = Some (built_session c)"
  by (simp add: eval_defs built_session_def)

section \<open>The session invariant\<close>

text \<open>
  Claim C1, as stated, fails: after a completed build, a second upload to the same
  session sets the status to \<open>uploaded\<close> and leaves the old retrieval chain in the
  session, so the chain is non-null while the status is not \<open>completed\<close>.
\<close>

theorem pipeline_iff_completed_counterexample:
  "sessions (run example_render reupload_events) ''s1'' \<noteq> None
   \<and> \<not> (retrieval_chain (the (sessions (run example_render reupload_events) ''s1'')) \<noteq> None
          \<longleftrightarrow> status (the (sessions (run example_render reupload_events) ''s1''))
                = ''completed'')"
  by (simp add: eval_defs)

text \<open>
  Claim C1, amended: after every sequence of requests and background builds, every
  session of the table whose status is \<open>completed\<close> has a non-null retrieval chain.
\<close>

theorem completed_has_pipeline:
  assumes "sessions (run render evs) sid = Some s"
    and "status s = ''completed''"
  shows "retrieval_chain s \<noteq> None"
  using run_ok [of render evs] assms by (auto simp: store_ok_def session_ok_def)

theorem completed_has_pipeline_witness:
  "sessions (run example_render (built_events answering_chain)) ''s1''
     = Some (built_session answering_chain)
   \<and> status (built_session answering_chain) = ''completed''
   \<and> retrieval_chain (built_session answering_chain) \<noteq> None"
proof -
  have h1: "sessions (run example_render (built_events answering_chain)) ''s1''
              = Some (built_session answering_chain)"
    by (rule run_built)
  have h2: "status (built_session answering_chain) = ''completed''"
    by (simp add: built_session_def)
  from completed_has_pipeline [OF h1 h2] h1 h2 show ?thesis by simp
qed

section \<open>The input-normalization shim\<close>

text \<open>
  Claim C2: given a mapping with exactly one of the keys \<open>question\<close> and \<open>input\<close>,
  \<open>format_inputs\<close> returns the mapping \<open>{question: value}\<close>; given neither key it
  raises the \<open>ValueError\<close> that reports the missing key. The function reads its
  argument only and its result is a value of the argument alone: it is a function of
  the mapping, with no state to read or write.
\<close>

theorem format_inputs_contract:
  "(inputs ''question'' = Some v \<and> inputs ''input'' = None
      \<longrightarrow> format_inputs inputs = Inr [''question'' \<mapsto> v])
   \<and> (inputs ''question'' = None \<and> inputs ''input'' = Some v
      \<longrightarrow> format_inputs inputs = Inr [''question'' \<mapsto> v])
   \<and> (inputs ''question'' = None \<and> inputs ''input'' = None
      \<longrightarrow> format_inputs inputs
            = Inl (ValueError ''Input must contain either 'question' or 'input' key''))"
  by (simp add: format_inputs_def)

theorem format_inputs_contract_witness:
  "format_inputs [''question'' \<mapsto> PStr ''X''] = Inr [''question'' \<mapsto> PStr ''X'']
   \<and> format_inputs [''input'' \<mapsto> PStr ''X''] = Inr [''question'' \<mapsto> PStr ''X'']
   \<and> format_inputs (Map.empty :: string \<rightharpoonup> pyval)
       = Inl (ValueError ''Input must contain either 'question' or 'input' key'')"
  using format_inputs_contract [of "[''question'' \<mapsto> PStr ''X'']" "PStr ''X''"]
    format_inputs_contract [of "[''input'' \<mapsto> PStr ''X'']" "PStr ''X''"]
    format_inputs_contract [of "Map.empty :: string \<rightharpoonup> pyval"]
  by simp

text \<open>
  Claim C10: when the mapping has both keys, \<open>format_inputs\<close> returns the value
  stored under \<open>question\<close>.
\<close>

theorem format_inputs_question_precedence:
  assumes "inputs ''question'' = Some q"
    and "inputs ''input'' = Some i"
  shows "format_inputs inputs = Inr [''question'' \<mapsto> q]"
  using assms by (simp add: format_inputs_def)

theorem format_inputs_question_precedence_witness:
  "format_inputs [''input'' \<mapsto> PStr ''I'', ''question'' \<mapsto> PStr ''Q'']
     = Inr [''question'' \<mapsto> PStr ''Q'']"
  using format_inputs_question_precedence
    [of "[''input'' \<mapsto> PStr ''I'', ''question'' \<mapsto> PStr ''Q'']" "PStr ''Q''" "PStr ''I''"]
  by simp

section \<open>Answer extraction\<close>

text \<open>
  Claim C3: the answer is looked up under the keys \<open>answer\<close>, \<open>result\<close>, \<open>output\<close>,
  \<open>response\<close>, in this order, and the value of the first key present is returned; a
  mapping with none of the four keys, and a result that is not a mapping, yield the
  string rendering of the whole result. So \<open>{"result": "A"}\<close> yields \<open>A\<close>,
  \<open>{"answer": "A", "result": "B"}\<close> yields \<open>A\<close>, and \<open>{"foo": "A"}\<close> yields the
  rendering of the whole mapping.
\<close>

theorem extract_answer_priority:
  "(map_of kvs (PStr ''answer'') = Some v \<longrightarrow> extract_answer render (PDict kvs) = v)
   \<and> (map_of kvs (PStr ''answer'') = None \<and> map_of kvs (PStr ''result'') = Some v
        \<longrightarrow> extract_answer render (PDict kvs) = v)
   \<and> (map_of kvs (PStr ''answer'') = None \<and> map_of kvs (PStr ''result'') = None
        \<and> map_of kvs (PStr ''output'') = Some v
        \<longrightarrow> extract_answer render (PDict kvs) = v)
   \<and> (map_of kvs (PStr ''answer'') = None \<and> map_of kvs (PStr ''result'') = None
        \<and> map_of kvs (PStr ''output'') = None \<and> map_of kvs (PStr ''response'') = Some v
        \<longrightarrow> extract_answer render (PDict kvs) = v)
   \<and> (map_of kvs (PStr ''answer'') = None \<and> map_of kvs (PStr ''result'') = None
        \<and> map_of kvs (PStr ''output'') = None \<and> map_of kvs (PStr ''response'') = None
        \<longrightarrow> extract_answer render (PDict kvs) = PStr (render (PDict kvs)))
   \<and> (\<not> is_dict r \<longrightarrow> extract_answer render r = PStr (py_str render r))
   \<and> extract_answer render (PDict [(PStr ''result'', PStr ''A'')]) = PStr ''A''
   \<and> extract_answer render (PDict [(PStr ''answer'', PStr ''A''), (PStr ''result'', PStr ''B'')])
       = PStr ''A''
   \<and> extract_answer render (PDict [(PStr ''foo'', PStr ''A'')])
       = PStr (render (PDict [(PStr ''foo'', PStr ''A'')]))"
proof -
  have "\<not> is_dict r \<Longrightarrow> extract_answer render r = PStr (py_str render r)"
    by (cases r) (simp_all add: extract_answer_def)
  then show ?thesis
    by (simp add: extract_answer_def py_str_def)
qed

theorem extract_answer_priority_witness:
  "extract_answer example_render
      (PDict [(PStr ''result'', PStr ''B''), (PStr ''answer'', PStr ''A'')]) = PStr ''A''
   \<and> extract_answer example_render
      (PDict [(PStr ''response'', PStr ''D''), (PStr ''output'', PStr ''C''),
              (PStr ''result'', PStr ''B'')]) = PStr ''B''
   \<and> extract_answer example_render
      (PDict [(PStr ''response'', PStr ''D''), (PStr ''output'', PStr ''C'')]) = PStr ''C''
   \<and> extract_answer example_render
      (PDict [(PStr ''foo'', PStr ''E''), (PStr ''response'', PStr ''D'')]) = PStr ''D''
   \<and> extract_answer example_render (PDict [(PStr ''foo'', PStr ''E'')]) = PStr ''<rendered>''
   \<and> extract_answer example_render (PStr ''plain text'') = PStr ''plain text''
   \<and> extract_answer example_render (PInt 7) = PStr ''<rendered>''"
  using
    extract_answer_priority
      [of "[(PStr ''result'', PStr ''B''), (PStr ''answer'', PStr ''A'')]" "PStr ''A''"
          example_render "PStr ''plain text''"]
    extract_answer_priority
      [of "[(PStr ''response'', PStr ''D''), (PStr ''output'', PStr ''C''),
            (PStr ''result'', PStr ''B'')]" "PStr ''B''" example_render "PInt 7"]
    extract_answer_priority
      [of "[(PStr ''response'', PStr ''D''), (PStr ''output'', PStr ''C'')]" "PStr ''C''"
          example_render "PNone"]
    extract_answer_priority
      [of "[(PStr ''foo'', PStr ''E''), (PStr ''response'', PStr ''D'')]" "PStr ''D''"
          example_render "PNone"]
    extract_answer_priority
      [of "[(PStr ''foo'', PStr ''E'')]" "PNone" example_render "PNone"]
  by (simp add: py_str_def example_render_def)

section \<open>The reasoning split\<close>

lemma split_from_nonempty: "split_from sep acc s \<noteq> []"
  by (induction sep acc s rule: split_from.induct) auto

text \<open>A string that contains the separator splits into at least two pieces.\<close>

lemma split_from_two:
  "sep \<noteq> [] \<Longrightarrow> contains s sep \<Longrightarrow> \<exists>p0 p1 rest. split_from sep acc s = p0 # p1 # rest"
proof (induction sep acc s rule: split_from.induct)
  case (1 sep acc)
  then show ?case by simp
next
  case (2 sep acc c cs)
  show ?case
  proof (cases "startswith (c # cs) sep")
    case True
    obtain x xs where "split_from sep [] (drop (length sep) (c # cs)) = x # xs"
      using split_from_nonempty [of sep "[]" "drop (length sep) (c # cs)"]
      by (cases "split_from sep [] (drop (length sep) (c # cs))") auto
    with True 2(3) show ?thesis by simp
  next
    case False
    with 2(4) have "contains cs sep" by simp
    with 2(2) [OF _ 2(3)] False show ?thesis by simp
  qed
qed

text \<open>Joining the pieces with the separator gives the string back.\<close>

lemma join_split_from:
  "sep \<noteq> [] \<Longrightarrow> join sep (split_from sep acc s) = rev acc @ s"
proof (induction sep acc s rule: split_from.induct)
  case (1 sep acc)
  then show ?case by simp
next
  case (2 sep acc c cs)
  show ?case
  proof (cases "startswith (c # cs) sep")
    case True
    obtain x xs where x: "split_from sep [] (drop (length sep) (c # cs)) = x # xs"
      using split_from_nonempty [of sep "[]" "drop (length sep) (c # cs)"]
      by (cases "split_from sep [] (drop (length sep) (c # cs))") auto
    from True have t: "take (length sep) (c # cs) = sep"
      by (simp add: startswith_def)
    from 2(1) [OF _ 2(3)] True 2(3) x
    have "join sep (x # xs) = drop (length sep) (c # cs)" by simp
    with True 2(3) x have "join sep (split_from sep acc (c # cs))
        = rev acc @ sep @ drop (length sep) (c # cs)"
      by simp
    also have "sep @ drop (length sep) (c # cs) = c # cs"
      using append_take_drop_id [of "length sep" "c # cs"] t by simp
    finally show ?thesis .
  next
    case False
    with 2(2) [OF _ 2(3)] show ?thesis by simp
  qed
qed

text \<open>\<open>s.count(sub) > 0\<close> says that \<open>sub\<close> occurs in \<open>s\<close>.\<close>

lemma count_from_contains:
  "sub \<noteq> [] \<Longrightarrow> (0 < count_from sub s) = contains s sub"
  by (induction sub s rule: count_from.induct) auto

lemma delimiter_nonempty: "final_answer_delimiter \<noteq> []"
  by (simp add: final_answer_delimiter_def)

lemmas str_eval = split_reasoning_def final_answer_delimiter_def blank_line_def
  startswith_def split_def count_def strip_def is_space_def

text \<open>
  Claim C4, as stated, fails on its first example: both pieces of the split are
  stripped of surrounding whitespace before \<open>Final Answer:\<close> is put back in front of
  the second, so the space after the colon is lost. The answer is \<open>Final Answer:X\<close>.
\<close>

theorem reasoning_split_counterexample:
  "split_reasoning (PStr ''step1\<newline>\<newline>Final Answer: X'')
     \<noteq> Inr \<lparr>answer = PStr ''Final Answer: X'', thinking = Some ''step1''\<rparr>"
  by (simp add: str_eval)

text \<open>
  Claim C4, amended: with \<open>include_reasoning\<close>, the text \<open>step1\n\nFinal Answer: X\<close>
  yields thinking \<open>step1\<close> and answer \<open>Final Answer:X\<close>; the text \<open>p1\n\np2\n\np3\<close>
  yields thinking \<open>p1\n\np2\<close> and answer \<open>p3\<close>; the text \<open>single line\<close> yields the
  answer \<open>single line\<close> and no thinking. The delimiter case has priority: every text
  that contains a blank line followed by \<open>Final Answer:\<close> is split at the delimiter,
  thinking being the stripped first piece and the answer \<open>Final Answer:\<close> followed by
  the stripped second piece, whatever other blank lines the text has.
\<close>

theorem reasoning_split:
  "split_reasoning (PStr ''step1\<newline>\<newline>Final Answer: X'')
     = Inr \<lparr>answer = PStr ''Final Answer:X'', thinking = Some ''step1''\<rparr>
   \<and> split_reasoning (PStr ''p1\<newline>\<newline>p2\<newline>\<newline>p3'')
     = Inr \<lparr>answer = PStr ''p3'', thinking = Some ''p1\<newline>\<newline>p2''\<rparr>
   \<and> split_reasoning (PStr ''single line'')
     = Inr \<lparr>answer = PStr ''single line'', thinking = None\<rparr>
   \<and> (contains s ''\<newline>\<newline>Final Answer:'' \<longrightarrow>
        (\<exists>p0 p1 rest.
           split s ''\<newline>\<newline>Final Answer:'' = Inr (p0 # p1 # rest)
           \<and> split_reasoning (PStr s)
             = Inr \<lparr>answer = PStr (''Final Answer:'' @ strip p1),
                    thinking = Some (strip p0)\<rparr>))"
proof -
  have delim: "''\<newline>\<newline>Final Answer:'' = final_answer_delimiter"
    by (simp add: final_answer_delimiter_def)
  have "\<exists>p0 p1 rest.
           split s final_answer_delimiter = Inr (p0 # p1 # rest)
           \<and> split_reasoning (PStr s)
             = Inr \<lparr>answer = PStr (''Final Answer:'' @ strip p1),
                    thinking = Some (strip p0)\<rparr>"
    if c: "contains s final_answer_delimiter"
  proof -
    obtain p0 p1 rest where "split_from final_answer_delimiter [] s = p0 # p1 # rest"
      using split_from_two [OF delimiter_nonempty c] by blast
    then show ?thesis
      using c by (simp add: split_reasoning_def split_def delimiter_nonempty)
  qed
  moreover have "split_reasoning (PStr ''step1\<newline>\<newline>Final Answer: X'')
     = Inr \<lparr>answer = PStr ''Final Answer:X'', thinking = Some ''step1''\<rparr>"
    by (simp add: str_eval)
  moreover have "split_reasoning (PStr ''p1\<newline>\<newline>p2\<newline>\<newline>p3'')
     = Inr \<lparr>answer = PStr ''p3'', thinking = Some ''p1\<newline>\<newline>p2''\<rparr>"
    by (simp add: str_eval)
  moreover have "split_reasoning (PStr ''single line'')
     = Inr \<lparr>answer = PStr ''single line'', thinking = None\<rparr>"
    by (simp add: str_eval)
  ultimately show ?thesis
    unfolding delim by blast
qed

text \<open>
  A text with two paragraphs before the delimiter: the paragraph rule would answer
  \<open>Final Answer: c\<close>; the delimiter rule, which is the one applied, answers
  \<open>Final Answer:c\<close>.
\<close>

theorem reasoning_split_witness:
  "contains ''a\<newline>\<newline>b\<newline>\<newline>Final Answer: c'' ''\<newline>\<newline>Final Answer:''
   \<and> split ''a\<newline>\<newline>b\<newline>\<newline>Final Answer: c'' ''\<newline>\<newline>Final Answer:''
       = Inr [''a\<newline>\<newline>b'', '' c'']
   \<and> split_reasoning (PStr ''a\<newline>\<newline>b\<newline>\<newline>Final Answer: c'')
       = Inr \<lparr>answer = PStr ''Final Answer:c'', thinking = Some ''a\<newline>\<newline>b''\<rparr>"
proof -
  have h: "contains ''a\<newline>\<newline>b\<newline>\<newline>Final Answer: c'' ''\<newline>\<newline>Final Answer:''"
    by (simp add: startswith_def)
  have s: "split ''a\<newline>\<newline>b\<newline>\<newline>Final Answer: c'' ''\<newline>\<newline>Final Answer:''
             = Inr [''a\<newline>\<newline>b'', '' c'']"
    by (simp add: split_def startswith_def)
  have st: "strip ''a\<newline>\<newline>b'' = ''a\<newline>\<newline>b''" "strip '' c'' = ''c''"
    by (simp_all add: strip_def is_space_def)
  from reasoning_split [of "''a\<newline>\<newline>b\<newline>\<newline>Final Answer: c''"] h s st
  show ?thesis by auto
qed

section \<open>The build and the service check\<close>

text \<open>
  Claim C5, as stated, fails on the message: when the language-model service is not
  reachable the session's error is the text of \<open>process_document\<close>, not
  \<open>service unavailable\<close>.
\<close>

theorem service_check_counterexample:
  "\<not> is_ollama_running env_ollama_down
   \<and> fst (process_document ''s1'' ''/tmp/t1'' ''a.pdf'' env_ollama_down Map.empty) ''s1'' \<noteq> None
   \<and> status (the (fst (process_document ''s1'' ''/tmp/t1'' ''a.pdf'' env_ollama_down Map.empty)
                    ''s1'')) = ''error''
   \<and> error (the (fst (process_document ''s1'' ''/tmp/t1'' ''a.pdf'' env_ollama_down Map.empty)
                    ''s1'')) \<noteq> Some ''service unavailable''"
  by (simp add: eval_defs ollama_not_running_message_def)

text \<open>
  Claim C5, amended: the first step of every build is the check that the
  language-model service answers; when it does not, the session's status becomes
  \<open>error\<close>, its error becomes \<open>Ollama is not running. Please start Ollama before
  processing documents.\<close>, and no further build step (loading, chunking, indexing,
  chain assembly) is performed; the session's retrieval chain is left as it was.
\<close>

theorem service_check_first:
  "(\<exists>rest. snd (process_document sid fp fname env store) = CheckOllama # rest)
   \<and> (\<not> is_ollama_running env \<longrightarrow>
        snd (process_document sid fp fname env store) = [CheckOllama]
        \<and> (\<exists>s. fst (process_document sid fp fname env store) sid = Some s
              \<and> status s = ''error''
              \<and> error s
                  = Some ''Ollama is not running. Please start Ollama before processing documents.''
              \<and> retrieval_chain s
                  = retrieval_chain (fst (get_or_create_session_store sid store))))"
  by (simp add: process_document_def build_steps_def split_beta Let_def
      ollama_not_running_message_def build_failed_def split: option.splits sum.splits)

theorem service_check_first_witness:
  "\<not> is_ollama_running env_ollama_down
   \<and> snd (process_document ''s1'' ''/tmp/t1'' ''a.pdf'' env_ollama_down Map.empty) = [CheckOllama]
   \<and> status (the (fst (process_document ''s1'' ''/tmp/t1'' ''a.pdf'' env_ollama_down Map.empty)
                    ''s1'')) = ''error''"
proof -
  have h: "\<not> is_ollama_running env_ollama_down"
    by (simp add: is_ollama_running_def env_ollama_down_def)
  from service_check_first [of "''s1''" "''/tmp/t1''" "''a.pdf''" env_ollama_down Map.empty] h
  show ?thesis by auto
qed

section \<open>Questions to a session that is not ready\<close>

text \<open>
  Claim C6, as stated, fails on the detail: for a status other than \<open>error\<close> the
  detail is a fixed sentence that carries neither the current status nor the error of
  an earlier build. Here a build has failed with \<open>bad pdf\<close> and a second upload has
  set the status to \<open>uploaded\<close>.
\<close>

theorem not_ready_counterexample:
  "sessions (run example_render failed_then_reupload_events) ''s1'' \<noteq> None
   \<and> status (the (sessions (run example_render failed_then_reupload_events) ''s1'')) = ''uploaded''
   \<and> error (the (sessions (run example_render failed_then_reupload_events) ''s1''))
       = Some ''bad pdf''
   \<and> fst (ask_question example_render example_request
            (run example_render failed_then_reupload_events))
       = Inl (HTTPException 400 ''Document processing not completed'')
   \<and> \<not> contains ''Document processing not completed'' ''uploaded''
   \<and> \<not> contains ''Document processing not completed'' ''bad pdf''"
  by (simp add: eval_defs ask_question_def example_request_def startswith_def)

text \<open>
  Claim C6, amended: for every session whose status is not \<open>completed\<close>,
  \<open>ask_question\<close> fails with status code 400, never invokes the retrieval chain and
  leaves the server state as it is; the detail is \<open>Error processing document:\<close>
  followed by the session's error when the status is \<open>error\<close>, and the fixed
  sentence \<open>Document processing not completed\<close> otherwise. A session identifier not
  yet in the table is entered with status \<open>none\<close> and fails in the same way.
\<close>

theorem not_ready:
  "(sessions srv (session_id request) = Some s \<and> status s \<noteq> ''completed'' \<longrightarrow>
      ask_question render request srv
        = (Inl (HTTPException 400
                 (if status s = ''error''
                  then ''Error processing document: '' @ fmt_opt (error s)
                  else ''Document processing not completed'')),
           srv, []))
   \<and> (sessions srv (session_id request) = None \<longrightarrow>
      ask_question render request srv
        = (Inl (HTTPException 400 ''Document processing not completed''),
           srv\<lparr>sessions := (sessions srv)(session_id request \<mapsto> new_session)\<rparr>, []))"
  by (simp add: ask_question_def get_or_create_session_store_def new_session_def)

lemma run_failed: "sessions (run render failed_events) ''s1'' = Some failed_session"
  by (simp add: eval_defs failed_session_def)

theorem not_ready_witness:
  "sessions (run example_render failed_events) (session_id example_request) = Some failed_session
   \<and> status failed_session \<noteq> ''completed''
   \<and> ask_question example_render example_request (run example_render failed_events)
       = (Inl (HTTPException 400 ''Error processing document: bad pdf''),
          run example_render failed_events, [])
   \<and> sessions initial_server (session_id other_request) = None
   \<and> fst (ask_question example_render other_request initial_server)
       = Inl (HTTPException 400 ''Document processing not completed'')
   \<and> snd (snd (ask_question example_render other_request initial_server)) = []"
proof -
  have h1: "sessions (run example_render failed_events) (session_id example_request)
              = Some failed_session"
    by (simp add: example_request_def run_failed)
  have h2: "status failed_session \<noteq> ''completed''" "status failed_session = ''error''"
    "fmt_opt (error failed_session) = ''bad pdf''"
    by (simp_all add: failed_session_def fmt_opt_def)
  have h3: "sessions initial_server (session_id other_request) = None"
    by (simp add: initial_server_def)
  from not_ready [of "run example_render failed_events" example_request failed_session
      example_render]
    not_ready [of initial_server other_request failed_session example_render]
    h1 h2 h3
  show ?thesis by simp
qed

section \<open>Failures while answering\<close>

lemma format_inputs_input:
  "format_inputs [''input'' \<mapsto> v] = Inr [''question'' \<mapsto> v]"
  by (simp add: format_inputs_def)

text \<open>
  On a \<open>completed\<close> session whose chain answers, \<open>ask_question\<close> returns the
  extracted answer, split when \<open>include_reasoning\<close> is set.
\<close>

lemma ask_question_completed:
  assumes "sessions srv (session_id request) = Some s"
    and "status s = ''completed''"
    and "retrieval_chain s = Some c"
    and "retrieval_chain_formatter s = Some format_inputs"
    and "c [''question'' \<mapsto> PStr (question request)] = Inr response"
  shows "fst (ask_question render request srv)
           = (if include_reasoning request
              then (case split_reasoning (extract_answer render response) of
                      Inl e \<Rightarrow> Inl (generation_failed e)
                    | Inr r \<Rightarrow> Inr r)
              else Inr \<lparr>answer = extract_answer render response, thinking = None\<rparr>)"
  using assms
  by (simp add: ask_question_def get_or_create_session_store_def format_inputs_input Let_def
      split: sum.splits)

text \<open>
  Claim C7: in every state the server can reach, when the retrieval chain of a
  \<open>completed\<close> session raises while answering, \<open>ask_question\<close> fails with the
  single status-500 error whose detail carries the message of the exception, and the
  server state is unchanged: the status is still \<open>completed\<close> and the chain is still
  in the session, so the session can be asked again.
\<close>

theorem generation_failure_keeps_session:
  assumes "sessions (run render evs) (session_id request) = Some s"
    and "status s = ''completed''"
    and "retrieval_chain s = Some c"
    and "c [''question'' \<mapsto> PStr (question request)] = Inl m"
  shows "ask_question render request (run render evs)
           = (Inl (HTTPException 500 (''Error processing question: '' @ m)),
              run render evs,
              [[''question'' \<mapsto> PStr (question request)]])"
proof -
  have "session_ok s"
    using run_ok [of render evs] assms(1) by (auto simp: store_ok_def)
  with assms(2) have f: "retrieval_chain_formatter s = Some format_inputs"
    by (simp add: session_ok_def)
  show ?thesis
    using assms f
    by (simp add: ask_question_def get_or_create_session_store_def format_inputs_input
        generation_failed_def)
qed

theorem generation_failure_keeps_session_witness:
  "sessions (run example_render (built_events failing_chain)) (session_id example_request)
     = Some (built_session failing_chain)
   \<and> status (built_session failing_chain) = ''completed''
   \<and> retrieval_chain (built_session failing_chain) = Some failing_chain
   \<and> failing_chain [''question'' \<mapsto> PStr (question example_request)] = Inl ''connection refused''
   \<and> ask_question example_render example_request (run example_render (built_events failing_chain))
       = (Inl (HTTPException 500 ''Error processing question: connection refused''),
          run example_render (built_events failing_chain),
          [[''question'' \<mapsto> PStr (question example_request)]])"
proof -
  have h1: "sessions (run example_render (built_events failing_chain))
      (session_id example_request) = Some (built_session failing_chain)"
    by (simp add: example_request_def run_built)
  have h2: "status (built_session failing_chain) = ''completed''"
    and h3: "retrieval_chain (built_session failing_chain) = Some failing_chain"
    by (simp_all add: built_session_def)
  have h4: "failing_chain [''question'' \<mapsto> PStr (question example_request)]
              = Inl ''connection refused''"
    by (simp add: failing_chain_def)
  from generation_failure_keeps_session [OF h1 h2 h3 h4] h1 h2 h3 h4
  show ?thesis by simp
qed
section \<open>Status of a session never uploaded to\<close>

lemma get_or_create_untouched:
  "store sid = None \<or> store sid = Some new_session \<Longrightarrow>
   snd (get_or_create_session_store sid' store) sid = None
   \<or> snd (get_or_create_session_store sid' store) sid = Some new_session"
  by (auto simp: get_or_create_session_store_def split: option.splits)

lemma process_document_other:
  "sid' \<noteq> sid \<Longrightarrow>
   fst (process_document sid' fp fname env store) sid
     = snd (get_or_create_session_store sid' store) sid"
  by (simp add: process_document_def split_beta Let_def)

lemma upload_untouched:
  assumes "untouched sid srv" and "target \<noteq> Some sid"
  shows "untouched sid (snd (upload_document target fname io srv))"
proof (cases target)
  case None
  with assms show ?thesis by (simp add: upload_document_def falsy_def)
next
  case (Some t)
  with assms(2) have ne: "t \<noteq> sid" by simp
  from assms(1) have "snd (get_or_create_session_store t (sessions srv)) sid = None
      \<or> snd (get_or_create_session_store t (sessions srv)) sid = Some new_session"
    by (intro get_or_create_untouched) (simp add: untouched_def)
  with assms(1) ne show ?thesis
    by (auto simp: upload_document_def Some untouched_def split_beta Let_def
        split: upload_io.splits)
qed

lemma run_task_untouched:
  assumes "untouched sid srv"
  shows "untouched sid (run_task i env srv)"
proof (cases "i < length (background_tasks srv)")
  case False
  with assms show ?thesis by (simp add: run_task_def)
next
  case True
  obtain t fp fname where t: "background_tasks srv ! i = (t, fp, fname)"
    by (cases "background_tasks srv ! i") auto
  from True have "background_tasks srv ! i \<in> set (background_tasks srv)" by simp
  with t assms have ne: "t \<noteq> sid" by (force simp: untouched_def)
  have sub: "set (take i xs @ drop (Suc i) xs) \<subseteq> set xs" for xs :: "task list"
    using set_take_subset [of i xs] set_drop_subset [of "Suc i" xs] by auto
  from assms have "snd (get_or_create_session_store t (sessions srv)) sid = None
      \<or> snd (get_or_create_session_store t (sessions srv)) sid = Some new_session"
    by (intro get_or_create_untouched) (simp add: untouched_def)
  with assms ne sub [of "background_tasks srv"] show ?thesis
    by (auto simp: run_task_def True t untouched_def process_document_other)
qed

lemma step_untouched:
  assumes "untouched sid srv" and "\<not> uploads_to sid e"
  shows "untouched sid (step render srv e)"
proof (cases e)
  case (Upload target fname io)
  with assms show ?thesis by (simp add: upload_untouched)
next
  case (RunTask i env)
  with assms show ?thesis by (simp add: run_task_untouched)
next
  case (Status sid')
  from assms(1) have "snd (get_or_create_session_store sid' (sessions srv)) sid = None
      \<or> snd (get_or_create_session_store sid' (sessions srv)) sid = Some new_session"
    by (intro get_or_create_untouched) (simp add: untouched_def)
  with assms(1) show ?thesis
    by (simp add: Status document_status_def split_beta untouched_def)
next
  case (Question request)
  from assms(1) have "snd (get_or_create_session_store (session_id request) (sessions srv)) sid
        = None
      \<or> snd (get_or_create_session_store (session_id request) (sessions srv)) sid
        = Some new_session"
    by (intro get_or_create_untouched) (simp add: untouched_def)
  with assms(1) show ?thesis
    by (simp add: Question untouched_def sessions_ask_question tasks_ask_question)
qed

lemma foldl_untouched:
  "untouched sid srv \<Longrightarrow> \<forall>e \<in> set evs. \<not> uploads_to sid e \<Longrightarrow>
   untouched sid (foldl (step render) srv evs)"
  by (induction evs arbitrary: srv) (simp_all add: step_untouched)

lemma initial_untouched: "untouched sid initial_server"
  by (simp add: untouched_def initial_server_def)

text \<open>
  Claim C8: after any sequence of requests and background builds that contains no
  upload to the session identifier, the status check reports status \<open>none\<close> with
  null filename and null error.
\<close>

theorem status_of_unseen_session:
  assumes "\<forall>e \<in> set evs. \<not> uploads_to sid e"
  shows "fst (document_status sid (run render evs)) = StatusResponse sid ''none'' None None"
proof -
  have "untouched sid (run render evs)"
    unfolding run_def by (rule foldl_untouched [OF initial_untouched assms])
  then show ?thesis
    by (auto simp: untouched_def document_status_def get_or_create_session_store_def
        new_session_def)
qed

theorem status_of_unseen_session_witness:
  "fst (document_status ''s2'' (run example_render (built_events answering_chain @ [Question other_request, Status ''s2''])))
     = StatusResponse ''s2'' ''none'' None None"
proof -
  have h: "\<forall>e \<in> set (built_events answering_chain @ [Question other_request, Status ''s2'']).
            \<not> uploads_to ''s2'' e"
    by (simp add: built_events_def)
  from status_of_unseen_session [OF h] show ?thesis .
qed

section \<open>Rejected uploads\<close>

lemma not_pdf: "\<not> endswith (lower ''notes.txt'') ''.pdf''"
  by code_simp

text \<open>
  Claim C9: an upload whose session identifier is missing (or empty), or whose
  filename, lower-cased, does not end in \<open>.pdf\<close>, fails with status code 400 and
  leaves the server state as it is: no background task is scheduled and no session is
  created or changed.
\<close>

theorem upload_rejected:
  assumes "falsy sid \<or> \<not> endswith (lower fname) ''.pdf''"
  shows "upload_document sid fname io srv
           = (Inl (HTTPException 400
                    (if falsy sid then ''Session ID is required''
                     else ''Only PDF files are supported'')),
              srv)"
  using assms by (auto simp: upload_document_def)

theorem upload_rejected_witness:
  "upload_document None ''a.pdf'' (Stored ''/tmp/t1'') initial_server
     = (Inl (HTTPException 400 ''Session ID is required''), initial_server)
   \<and> upload_document (Some ''s1'') ''notes.txt'' (Stored ''/tmp/t1'') initial_server
     = (Inl (HTTPException 400 ''Only PDF files are supported''), initial_server)"
proof -
  have h1: "falsy None \<or> \<not> endswith (lower ''a.pdf'') ''.pdf''"
    by (simp add: falsy_def)
  have h2: "falsy (Some ''s1'') \<or> \<not> endswith (lower ''notes.txt'') ''.pdf''"
    by (simp add: not_pdf)
  have f: "falsy None" "\<not> falsy (Some ''s1'')"
    by (simp_all add: falsy_def)
  from upload_rejected [OF h1] upload_rejected [OF h2] f show ?thesis by simp
qed

end
